theory Spec2Isabelle
  imports Main "HOL-Library.AList"
begin

section \<open>JavaScript values\<close>

text \<open>
  The controllers of \<^verbatim>\<open>src/controller/device/v1/TaskController.js\<close> and
  \<^verbatim>\<open>src/controller/admin/BlogController.js\<close> are the same text up to the entity name
  (Task, Blog). They are embedded once, under the names of the Task controller, over an
  environment that holds what each controller imports.

  Request bodies, store results and query objects are JavaScript values. An object is an
  association list of its own enumerable properties (read with \<open>map_of\<close>, written with
  \<open>AList.update\<close>, so that a key occurs as one property). Numbers are integers: the
  controllers only test a number for truthiness. \<open>JFunction\<close> stands for an inherited
  method read as a property.
\<close>

datatype jsval =
    JUndefined
  | JNull
  | JBool bool
  | JNum int
  | JStr string
  | JArr "jsval list"
  | JObj "(string \<times> jsval) list"
  | JFunction

text \<open>What a \<open>throw\<close> or a rejected promise carries: an \<open>Error\<close> object, seen
  through its message, or any other value.\<close>

datatype exn = Error string | Thrown jsval

definition TypeError :: "string \<Rightarrow> exn" where
  "TypeError what = Error (''TypeError: '' @ what)"

text \<open>\<open>!!v\<close>: the values that count as true in a condition.\<close>

fun truthy :: "jsval \<Rightarrow> bool" where
  "truthy JUndefined = False"
| "truthy JNull = False"
| "truthy (JBool b) = b"
| "truthy (JNum n) = (n \<noteq> 0)"
| "truthy (JStr s) = (s \<noteq> [])"
| "truthy (JArr xs) = True"
| "truthy (JObj kvs) = True"
| "truthy JFunction = True"

text \<open>\<open>Array.isArray(v)\<close>.\<close>

fun isArray :: "jsval \<Rightarrow> bool" where
  "isArray (JArr xs) = True"
| "isArray v = False"

text \<open>\<open>typeof v === 'object' && v !== null\<close>.\<close>

fun is_object :: "jsval \<Rightarrow> bool" where
  "is_object (JArr xs) = True"
| "is_object (JObj kvs) = True"
| "is_object v = False"

definition digit_char :: "nat \<Rightarrow> char" where
  "digit_char d = ''0123456789'' ! d"

fun decimal :: "nat \<Rightarrow> string" where
  "decimal n = (if n < 10 then [digit_char n] else decimal (n div 10) @ [digit_char (n mod 10)])"

declare decimal.simps [simp del]

fun indexed :: "nat \<Rightarrow> jsval list \<Rightarrow> (string \<times> jsval) list" where
  "indexed i [] = []"
| "indexed i (x # xs) = (decimal i, x) # indexed (Suc i) xs"

text \<open>The own enumerable properties of a value, which is what an object spread
  \<open>{ ...v }\<close> copies: the properties of an object, the elements of an array and the
  characters of a string under their indices, nothing for any other value.\<close>

fun own_props :: "jsval \<Rightarrow> (string \<times> jsval) list" where
  "own_props (JObj kvs) = kvs"
| "own_props (JArr xs) = indexed 0 xs"
| "own_props (JStr s) = indexed 0 (map (\<lambda>c. JStr [c]) s)"
| "own_props v = []"

definition lookup :: "(string \<times> jsval) list \<Rightarrow> string \<Rightarrow> jsval" where
  "lookup kvs k = (case map_of kvs k of None \<Rightarrow> JUndefined | Some v \<Rightarrow> v)"

text \<open>\<open>v.k\<close>: reading a property of \<open>undefined\<close> or \<open>null\<close> throws a TypeError. Of the
  inherited properties, the ones a controller can reach are modelled: \<open>length\<close> of an
  array or a string, and \<open>filter\<close> of an array (\<open>Array.prototype.filter\<close>, reached by
  \<open>req.body.filter\<close> when the body is an array).\<close>

fun get_prop :: "jsval \<Rightarrow> string \<Rightarrow> exn + jsval" where
  "get_prop JUndefined k = Inl (TypeError (''Cannot read properties of undefined, reading '' @ k))"
| "get_prop JNull k = Inl (TypeError (''Cannot read properties of null, reading '' @ k))"
| "get_prop (JArr xs) k =
     Inr (if k = ''length'' then JNum (int (length xs))
          else if k = ''filter'' then JFunction
          else lookup (own_props (JArr xs)) k)"
| "get_prop (JStr s) k =
     Inr (if k = ''length'' then JNum (int (length s)) else lookup (own_props (JStr s)) k)"
| "get_prop v k = Inr (lookup (own_props v) k)"

text \<open>\<open>error.message\<close> in a catch block: the message of an \<open>Error\<close> object; for any
  other caught value the property read, which throws on \<open>undefined\<close> and \<open>null\<close>.\<close>

fun error_message :: "exn \<Rightarrow> exn + jsval" where
  "error_message (Error m) = Inr (JStr m)"
| "error_message (Thrown v) = get_prop v ''message''"

text \<open>\<open>a && a.k\<close>: the left operand when it is falsy, the property otherwise.\<close>

definition and_prop :: "jsval \<Rightarrow> string \<Rightarrow> exn + jsval" where
  "and_prop a k = (if truthy a then get_prop a k else Inr a)"

text \<open>\<open>delete v[k]\<close> for a key that is not an index: it throws on \<open>undefined\<close> and
  \<open>null\<close>, removes the property of an object, and leaves any other value as it is.\<close>

fun delete_prop :: "jsval \<Rightarrow> string \<Rightarrow> exn + jsval" where
  "delete_prop JUndefined k = Inl (TypeError (''Cannot convert undefined or null to object''))"
| "delete_prop JNull k = Inl (TypeError (''Cannot convert undefined or null to object''))"
| "delete_prop (JObj kvs) k = Inr (JObj (AList.delete k kvs))"
| "delete_prop v k = Inr v"

text \<open>\<open>[ ...v ]\<close>: the elements of an array, the characters of a string; any other value
  of this model is not iterable.\<close>

fun spread_array :: "jsval \<Rightarrow> exn + jsval list" where
  "spread_array (JArr xs) = Inr xs"
| "spread_array (JStr s) = Inr (map (\<lambda>c. JStr [c]) s)"
| "spread_array v = Inl (TypeError ''value is not iterable'')"

section \<open>Requests, responses and the environment of a controller\<close>

text \<open>\<open>req.params\<close> is always an object (the router supplies it), \<open>req.body\<close> and
  \<open>req.user\<close> are whatever the middleware left there.\<close>

record req =
  body :: jsval
  params :: "(string \<times> jsval) list"
  user :: jsval

text \<open>The response constructors of the response formatter, with the payload each is
  given: \<open>res.success({ data })\<close>, \<open>res.validationError({ message })\<close>,
  \<open>res.recordNotFound()\<close>, \<open>res.badRequest()\<close> or \<open>res.badRequest({ message })\<close>,
  \<open>res.internalServerError({ message })\<close>.\<close>

datatype response =
    Success jsval
  | ValidationError string
  | RecordNotFound
  | BadRequest "string option"
  | InternalServerError jsval

text \<open>The calls to \<open>dbService\<close>; the model argument is the controller's entity.\<close>

datatype dbcall =
    Create jsval
  | FindOne jsval jsval
  | Paginate jsval jsval
  | Count jsval
  | UpdateOne jsval jsval
  | UpdateMany jsval jsval
  | DeleteOne jsval
  | DeleteMany jsval

datatype event = Db dbcall | Res response

record validation =
  isValid :: bool
  message :: string

text \<open>A \<open>joi.object({...})\<close> declaration: for each declared key its base type and the
  values added by \<open>.allow(...)\<close>, and whether \<open>.unknown(true)\<close> is set.\<close>

datatype joi_type = JoiString | JoiStringHex24 | JoiArray | JoiInteger | JoiDate | JoiBoolean

record joi_object =
  joi_keys :: "(string \<times> joi_type \<times> jsval list) list"
  joi_unknown :: bool

text \<open>What a controller imports and is not part of the source files: the two validators
  of \<open>utils/validateRequest\<close>, \<open>ObjectId.isValid\<close>, the model constructor
  (\<open>new Task(...)\<close>) and \<open>dbService\<close>, which answers a call from the store's state
  \<open>'st\<close> with a value or a rejection; the two validation schemas of the entity.
  \<open>validateFilterWithJoi\<close> is called with the model's schema object by \<open>findAllTask\<close>
  and without it by \<open>getTaskCount\<close>: the flag says which.\<close>

record 'st env =
  validateParamsWithJoi :: "jsval \<Rightarrow> joi_object \<Rightarrow> exn + validation"
  validateFilterWithJoi :: "jsval \<Rightarrow> bool \<Rightarrow> exn + validation"
  ObjectId_isValid :: "jsval \<Rightarrow> bool"
  newModel :: "jsval \<Rightarrow> exn + jsval"
  dbService :: "dbcall \<Rightarrow> 'st \<Rightarrow> (exn + jsval) \<times> 'st"
  schemaKeys :: joi_object
  updateSchemaKeys :: joi_object

section \<open>Actions: exceptions, the trace of effects, the store\<close>

text \<open>An action runs on the events so far (store calls and responses, in order) and
  the state of the store. It ends with a value, or with an exception that is still
  propagating (\<open>Inl\<close>).\<close>

type_synonym ('st, 'a) act = "event list \<times> 'st \<Rightarrow> (exn + 'a) \<times> event list \<times> 'st"

definition act_return :: "'a \<Rightarrow> ('st, 'a) act" where
  "act_return x w = (Inr x, w)"

definition act_bind :: "('st, 'a) act \<Rightarrow> ('a \<Rightarrow> ('st, 'b) act) \<Rightarrow> ('st, 'b) act" where
  "act_bind m f w = (case m w of (Inl e, w') \<Rightarrow> (Inl e, w') | (Inr x, w') \<Rightarrow> f x w')"

definition lift :: "exn + 'a \<Rightarrow> ('st, 'a) act" where
  "lift r w = (r, w)"

text \<open>\<open>try { m } catch (error) { h error }\<close>.\<close>

definition try_catch :: "('st, 'a) act \<Rightarrow> (exn \<Rightarrow> ('st, 'a) act) \<Rightarrow> ('st, 'a) act" where
  "try_catch m h w = (case m w of (Inl e, w') \<Rightarrow> h e w' | (Inr x, w') \<Rightarrow> (Inr x, w'))"

text \<open>The \<open>res\<close> argument of an action. Its constructors \<open>res.success(...)\<close>,
  \<open>res.validationError(...)\<close>, \<open>res.recordNotFound()\<close>, \<open>res.badRequest(...)\<close> and
  \<open>res.internalServerError(...)\<close> belong to the response formatter, which is not part
  of the source files: given the response and the events so far, a constructor sends the
  response (\<open>None\<close>) or throws.\<close>

type_synonym res = "response \<Rightarrow> event list \<Rightarrow> exn option"

text \<open>\<open>res.success(...)\<close> and the other constructors: the response is recorded when
  it is sent; when the constructor throws, nothing is sent.\<close>

definition respond :: "res \<Rightarrow> response \<Rightarrow> ('st, unit) act" where
  "respond res r w =
     (case res r (fst w) of
        None \<Rightarrow> (Inr (), fst w @ [Res r], snd w)
      | Some e \<Rightarrow> (Inl e, w))"

text \<open>\<open>await dbService.f(Task, ...)\<close>: the call is recorded and the store answers.\<close>

definition call_db :: "'st env \<Rightarrow> dbcall \<Rightarrow> ('st, jsval) act" where
  "call_db env c w = (case dbService env c (snd w) of (r, s') \<Rightarrow> (r, fst w @ [Db c], s'))"

text \<open>Running an action from an empty trace; what it left behind.\<close>

definition run :: "('st, unit) act \<Rightarrow> 'st \<Rightarrow> (exn + unit) \<times> event list \<times> 'st" where
  "run a s = a ([], s)"

definition escaped :: "(exn + unit) \<times> event list \<times> 'st \<Rightarrow> bool" where
  "escaped out = (case fst out of Inl e \<Rightarrow> True | Inr u \<Rightarrow> False)"

definition trace :: "(exn + unit) \<times> event list \<times> 'st \<Rightarrow> event list" where
  "trace out = fst (snd out)"

definition store_after :: "(exn + unit) \<times> event list \<times> 'st \<Rightarrow> 'st" where
  "store_after out = snd (snd out)"

fun db_calls :: "event list \<Rightarrow> dbcall list" where
  "db_calls [] = []"
| "db_calls (Db c # es) = c # db_calls es"
| "db_calls (Res r # es) = db_calls es"

fun responses :: "event list \<Rightarrow> response list" where
  "responses [] = []"
| "responses (Db c # es) = responses es"
| "responses (Res r # es) = r # responses es"

section \<open>The controller\<close>

text \<open>The catch block of every action:
  \<open>return res.internalServerError({ message: error.message })\<close>. Reading
  \<open>error.message\<close> and sending the response can both throw; what they throw leaves the
  action.\<close>

definition on_error :: "res \<Rightarrow> exn \<Rightarrow> ('st, unit) act" where
  "on_error res error =
     act_bind (lift (error_message error)) (\<lambda>msg.
     respond res (InternalServerError msg))"

definition addTask :: "'st env \<Rightarrow> req \<Rightarrow> res \<Rightarrow> ('st, unit) act" where
  "addTask env req res =
     try_catch
       (let dataToCreate = own_props (if truthy (body req) then body req else JObj []) in
        act_bind (lift (validateParamsWithJoi env (JObj dataToCreate) (schemaKeys env)))
          (\<lambda>validateRequest.
        if \<not> isValid validateRequest then
          respond res (ValidationError (''Invalid values in parameters, '' @ message validateRequest))
        else
          act_bind (lift (get_prop (user req) ''id'')) (\<lambda>uid.
          act_bind (lift (newModel env (JObj (AList.update ''addedBy'' uid dataToCreate))))
            (\<lambda>dataToCreate.
          act_bind (call_db env (Create dataToCreate)) (\<lambda>createdTask.
          respond res (Success createdTask))))))
       (on_error res)"

text \<open>The loop of \<open>bulkInsertTask\<close>: each element is replaced by
  \<open>{ ...dataToCreate[i], addedBy: req.user.id }\<close>, left to right.\<close>

fun stamp_addedBy :: "req \<Rightarrow> jsval list \<Rightarrow> exn + jsval list" where
  "stamp_addedBy req [] = Inr []"
| "stamp_addedBy req (d # ds) =
     (case get_prop (user req) ''id'' of
        Inl e \<Rightarrow> Inl e
      | Inr uid \<Rightarrow>
          (case stamp_addedBy req ds of
             Inl e \<Rightarrow> Inl e
           | Inr ds' \<Rightarrow> Inr (JObj (AList.update ''addedBy'' uid (own_props d)) # ds')))"

text \<open>\<open>!Array.isArray(v) || v.length < 1\<close>.\<close>

fun not_filled_array :: "jsval \<Rightarrow> bool" where
  "not_filled_array (JArr xs) = (length xs < 1)"
| "not_filled_array v = True"

definition bulkInsertTask :: "'st env \<Rightarrow> req \<Rightarrow> res \<Rightarrow> ('st, unit) act" where
  "bulkInsertTask env req res =
     try_catch
       (act_bind (lift (and_prop (body req) ''data'')) (\<lambda>d.
        if truthy (body req) \<and> not_filled_array d then respond res (BadRequest None)
        else
          act_bind (lift (get_prop (body req) ''data'')) (\<lambda>d.
          act_bind (lift (spread_array d)) (\<lambda>dataToCreate.
          act_bind (lift (stamp_addedBy req dataToCreate)) (\<lambda>dataToCreate.
          act_bind (call_db env (Create (JArr dataToCreate))) (\<lambda>createdTasks.
          act_bind (lift (if truthy createdTasks then get_prop createdTasks ''length''
                          else Inr (JNum 0))) (\<lambda>count.
          respond res (Success (JObj [(''count'', if truthy count then count else JNum 0)])))))))))
       (on_error res)"



definition getTask :: "'st env \<Rightarrow> req \<Rightarrow> res \<Rightarrow> ('st, unit) act" where
  "getTask env req res =
     try_catch
       (if \<not> ObjectId_isValid env (lookup (params req) ''id'') then
          respond res (ValidationError ''invalid objectId.'')
        else
          let query = JObj [(''_id'', lookup (params req) ''id'')]; options = JObj [] in
          act_bind (call_db env (FindOne query options)) (\<lambda>foundTask.
          if \<not> truthy foundTask then respond res RecordNotFound
          else respond res (Success foundTask)))
       (on_error res)"


definition updateTask :: "'st env \<Rightarrow> req \<Rightarrow> res \<Rightarrow> ('st, unit) act" where
  "updateTask env req res =
     try_catch
       (act_bind (lift (get_prop (user req) ''id'')) (\<lambda>uid.
        let dataToUpdate = JObj (AList.update ''updatedBy'' uid (own_props (body req))) in
        act_bind (lift (validateParamsWithJoi env dataToUpdate (updateSchemaKeys env)))
          (\<lambda>validateRequest.
        if \<not> isValid validateRequest then
          respond res (ValidationError (''Invalid values in parameters, '' @ message validateRequest))
        else
          let query = JObj [(''_id'', lookup (params req) ''id'')] in
          act_bind (call_db env (UpdateOne query dataToUpdate)) (\<lambda>updatedTask.
          if \<not> truthy updatedTask then respond res RecordNotFound
          else respond res (Success updatedTask)))))
       (on_error res)"

definition bulkUpdateTask :: "'st env \<Rightarrow> req \<Rightarrow> res \<Rightarrow> ('st, unit) act" where
  "bulkUpdateTask env req res =
     try_catch
       (act_bind (lift (and_prop (body req) ''filter'')) (\<lambda>f.
        let filter = JObj (if truthy f then own_props f else []);
            dataToUpdate = JObj (AList.delete ''addedBy'' []) in
        act_bind (lift (and_prop (body req) ''data'')) (\<lambda>d.
        act_bind
          (if truthy (body req) \<and> is_object d then
             act_bind (lift (get_prop (user req) ''id'')) (\<lambda>uid.
             act_return (JObj (AList.update ''updatedBy'' uid (own_props d))))
           else act_return dataToUpdate) (\<lambda>dataToUpdate.
        act_bind (call_db env (UpdateMany filter dataToUpdate)) (\<lambda>updatedTask.
        if \<not> truthy updatedTask then respond res RecordNotFound
        else respond res (Success (JObj [(''count'', updatedTask)])))))))
       (on_error res)"

definition partialUpdateTask :: "'st env \<Rightarrow> req \<Rightarrow> res \<Rightarrow> ('st, unit) act" where
  "partialUpdateTask env req res =
     try_catch
       (act_bind
          (if \<not> truthy (lookup (params req) ''id'') then
             respond res (BadRequest (Some ''Insufficient request parameters! id is required.''))
           else act_return ()) (\<lambda>u.
        act_bind (lift (delete_prop (body req) ''addedBy'')) (\<lambda>body'.
        act_bind (lift (get_prop (user req) ''id'')) (\<lambda>uid.
        let dataToUpdate = JObj (AList.update ''updatedBy'' uid (own_props body')) in
        act_bind (lift (validateParamsWithJoi env dataToUpdate (updateSchemaKeys env)))
          (\<lambda>validateRequest.
        if \<not> isValid validateRequest then
          respond res (ValidationError (''Invalid values in parameters, '' @ message validateRequest))
        else
          let query = JObj [(''_id'', lookup (params req) ''id'')] in
          act_bind (call_db env (UpdateOne query dataToUpdate)) (\<lambda>updatedTask.
          if \<not> truthy updatedTask then respond res RecordNotFound
          else respond res (Success updatedTask)))))))
       (on_error res)"

definition softDeleteTask :: "'st env \<Rightarrow> req \<Rightarrow> res \<Rightarrow> ('st, unit) act" where
  "softDeleteTask env req res =
     try_catch
       (if \<not> truthy (lookup (params req) ''id'') then
          respond res (BadRequest (Some ''Insufficient request parameters! id is required.''))
        else
          let query = JObj [(''_id'', lookup (params req) ''id'')] in
          act_bind (lift (get_prop (user req) ''id'')) (\<lambda>uid.
          let updateBody = JObj [(''isDeleted'', JBool True), (''updatedBy'', uid)] in
          act_bind (call_db env (UpdateOne query updateBody)) (\<lambda>updatedTask.
          if \<not> truthy updatedTask then respond res RecordNotFound
          else respond res (Success updatedTask))))
       (on_error res)"


definition deleteManyTask :: "'st env \<Rightarrow> req \<Rightarrow> res \<Rightarrow> ('st, unit) act" where
  "deleteManyTask env req res =
     try_catch
       (act_bind (lift (get_prop (body req) ''ids'')) (\<lambda>ids.
        if \<not> truthy ids \<or> not_filled_array ids then respond res (BadRequest None)
        else
          let query = JObj [(''_id'', JObj [(''$in'', ids)])] in
          act_bind (call_db env (DeleteMany query)) (\<lambda>deletedTask.
          if \<not> truthy deletedTask then respond res RecordNotFound
          else respond res (Success (JObj [(''count'', deletedTask)])))))
       (on_error res)"

definition softDeleteManyTask :: "'st env \<Rightarrow> req \<Rightarrow> res \<Rightarrow> ('st, unit) act" where
  "softDeleteManyTask env req res =
     try_catch
       (act_bind (lift (get_prop (body req) ''ids'')) (\<lambda>ids.
        if \<not> truthy ids \<or> not_filled_array ids then respond res (BadRequest None)
        else
          let query = JObj [(''_id'', JObj [(''$in'', ids)])] in
          act_bind (lift (get_prop (user req) ''id'')) (\<lambda>uid.
          let updateBody = JObj [(''isDeleted'', JBool True), (''updatedBy'', uid)] in
          act_bind (call_db env (UpdateMany query updateBody)) (\<lambda>updatedTask.
          if \<not> truthy updatedTask then respond res RecordNotFound
          else respond res (Success (JObj [(''count'', updatedTask)]))))))
       (on_error res)"

section \<open>Schema validation\<close>

text \<open>The declarations of \<^verbatim>\<open>TaskValidation.js\<close>: \<open>schemaKeys\<close> and
  \<open>updateSchemaKeys\<close>, both closed by \<open>.unknown(true)\<close>.\<close>

definition Task_schemaKeys :: joi_object where
  "Task_schemaKeys =
     \<lparr>joi_keys =
        [(''title'', JoiString, [JNull, JStr '''']),
         (''description'', JoiString, [JNull, JStr '''']),
         (''attachments'', JoiArray, []),
         (''status'', JoiInteger, [JNum 0]),
         (''date'', JoiDate, [JNull, JStr '''']),
         (''dueDate'', JoiDate, [JNull, JStr '''']),
         (''completedBy'', JoiStringHex24, [JNull, JStr '''']),
         (''completedAt'', JoiDate, [JNull, JStr '''']),
         (''isActive'', JoiBoolean, []),
         (''isDeleted'', JoiBoolean, [])],
      joi_unknown = True\<rparr>"

definition Task_updateSchemaKeys :: joi_object where
  "Task_updateSchemaKeys =
     \<lparr>joi_keys =
        [(''title'', JoiString, [JNull, JStr '''']),
         (''description'', JoiString, [JNull, JStr '''']),
         (''attachments'', JoiArray, []),
         (''status'', JoiInteger, [JNum 0]),
         (''date'', JoiDate, [JNull, JStr '''']),
         (''dueDate'', JoiDate, [JNull, JStr '''']),
         (''completedBy'', JoiStringHex24, [JNull, JStr '''']),
         (''completedAt'', JoiDate, [JNull, JStr '''']),
         (''isActive'', JoiBoolean, []),
         (''isDeleted'', JoiBoolean, []),
         (''_id'', JoiStringHex24, [])],
      joi_unknown = True\<rparr>"

text \<open>The pattern \<open>/^[0-9a-fA-F]{24}$/\<close>.\<close>

definition is_hex24 :: "string \<Rightarrow> bool" where
  "is_hex24 s = (length s = 24 \<and> list_all (\<lambda>c. c \<in> set ''0123456789abcdefABCDEF'') s)"

text \<open>Modelled from the spec: \<open>validateParamsWithJoi\<close> of \<^verbatim>\<open>utils/validateRequest\<close>
  and the joi library behind it are not among the source files. Following section 4.1 of
  the specification, each declared field that is present in the payload is checked for
  its type (string, integer, boolean, array, date, 24-hexadecimal identifier) unless its
  value is one that the declaration allows; a field that is not declared is rejected
  only by a schema that is not open to unknown keys; the result is valid exactly when no
  field fails, and the message names the fields that fail. Which values convert to a
  date is left to the parameter \<open>isDate\<close>.\<close>

fun conforms :: "(jsval \<Rightarrow> bool) \<Rightarrow> joi_type \<Rightarrow> jsval \<Rightarrow> bool" where
  "conforms isDate JoiDate v = isDate v"
| "conforms isDate JoiString (JStr s) = (s \<noteq> [])"
| "conforms isDate JoiStringHex24 (JStr s) = is_hex24 s"
| "conforms isDate JoiArray (JArr xs) = True"
| "conforms isDate JoiInteger (JNum n) = True"
| "conforms isDate JoiBoolean (JBool b) = True"
| "conforms isDate t v = False"

definition field_fails ::
  "(jsval \<Rightarrow> bool) \<Rightarrow> (string \<times> jsval) list \<Rightarrow> string \<times> joi_type \<times> jsval list \<Rightarrow> bool" where
  "field_fails isDate payload decl =
     (case decl of (k, t, allowed) \<Rightarrow>
        (case map_of payload k of
           None \<Rightarrow> False
         | Some v \<Rightarrow> v \<noteq> JUndefined \<and> v \<notin> set allowed \<and> \<not> conforms isDate t v))"

definition violations :: "(jsval \<Rightarrow> bool) \<Rightarrow> (string \<times> jsval) list \<Rightarrow> joi_object \<Rightarrow> string list" where
  "violations isDate payload S =
     map fst (filter (field_fails isDate payload) (joi_keys S)) @
     (if joi_unknown S then []
      else filter (\<lambda>k. map_of (joi_keys S) k = None) (map fst payload))"

definition validateParamsWithJoi_model ::
  "(jsval \<Rightarrow> bool) \<Rightarrow> jsval \<Rightarrow> joi_object \<Rightarrow> exn + validation" where
  "validateParamsWithJoi_model isDate payload S =
     (let bad = violations isDate (own_props payload) S
      in Inr \<lparr>isValid = (bad = []), message = concat (map (\<lambda>k. k @ '' is invalid. '') bad)\<rparr>)"

definition valid_payload :: "(jsval \<Rightarrow> bool) \<Rightarrow> (string \<times> jsval) list \<Rightarrow> joi_object \<Rightarrow> bool" where
  "valid_payload isDate payload S =
     (case validateParamsWithJoi_model isDate (JObj payload) S of
        Inl e \<Rightarrow> False
      | Inr r \<Rightarrow> isValid r)"

text \<open>The part of a payload that the schema declares.\<close>

definition declared_part :: "joi_object \<Rightarrow> (string \<times> jsval) list \<Rightarrow> (string \<times> jsval) list" where
  "declared_part S payload = filter (\<lambda>kv. map_of (joi_keys S) (fst kv) \<noteq> None) payload"

section \<open>The document store\<close>

text \<open>Modelled from the spec: the data-access facade \<^verbatim>\<open>utils/dbService\<close> and the
  document store behind it are not among the source files. Following sections 4.2 and
  4.3 of the specification, a collection is a list of documents; a query holds, for each
  of its fields, a literal (equality), an array (one of) or a comparison object, of which
  \<open>$in\<close> is interpreted and any other is left to the store (the parameter \<open>cmp\<close>);
  \<open>findOne\<close> gives the first match or null; \<open>updateOne\<close> writes the fields of the
  partial record into the first match and gives the updated record or null;
  \<open>updateMany\<close> does so for every match and gives their number; \<open>deleteOne\<close> removes
  the first match and gives it or null; \<open>deleteMany\<close> removes every match and gives their
  number. The other operations are left to the parameter \<open>other\<close>.\<close>

type_synonym doc = "(string \<times> jsval) list"

fun cond_holds :: "(jsval \<Rightarrow> jsval \<Rightarrow> bool) \<Rightarrow> jsval \<Rightarrow> jsval \<Rightarrow> bool" where
  "cond_holds cmp (JArr vs) v = (v \<in> set vs)"
| "cond_holds cmp (JObj kvs) v =
     (case map_of kvs ''$in'' of
        Some (JArr vs) \<Rightarrow> v \<in> set vs
      | _ \<Rightarrow> cmp (JObj kvs) v)"
| "cond_holds cmp c v = (v = c)"

definition matches :: "(jsval \<Rightarrow> jsval \<Rightarrow> bool) \<Rightarrow> jsval \<Rightarrow> doc \<Rightarrow> bool" where
  "matches cmp q d = list_all (\<lambda>kc. cond_holds cmp (snd kc) (lookup d (fst kc))) (own_props q)"

definition merge :: "jsval \<Rightarrow> doc \<Rightarrow> doc" where
  "merge u d = fold (\<lambda>kv. AList.update (fst kv) (snd kv)) (own_props u) d"

fun update_first :: "(doc \<Rightarrow> bool) \<Rightarrow> (doc \<Rightarrow> doc) \<Rightarrow> doc list \<Rightarrow> doc option \<times> doc list" where
  "update_first P f [] = (None, [])"
| "update_first P f (d # ds) =
     (if P d then (Some (f d), f d # ds)
      else (case update_first P f ds of (r, ds') \<Rightarrow> (r, d # ds')))"

fun remove_first :: "(doc \<Rightarrow> bool) \<Rightarrow> doc list \<Rightarrow> doc option \<times> doc list" where
  "remove_first P [] = (None, [])"
| "remove_first P (d # ds) =
     (if P d then (Some d, ds)
      else (case remove_first P ds of (r, ds') \<Rightarrow> (r, d # ds')))"

definition found :: "doc option \<Rightarrow> jsval" where
  "found r = (case r of None \<Rightarrow> JNull | Some d \<Rightarrow> JObj d)"

definition model_store ::
  "(jsval \<Rightarrow> jsval \<Rightarrow> bool) \<Rightarrow> (dbcall \<Rightarrow> doc list \<Rightarrow> (exn + jsval) \<times> doc list) \<Rightarrow>
   dbcall \<Rightarrow> doc list \<Rightarrow> (exn + jsval) \<times> doc list" where
  "model_store cmp other c docs =
     (case c of
        FindOne q opts \<Rightarrow> (Inr (found (find (matches cmp q) docs)), docs)
      | UpdateOne q u \<Rightarrow>
          (case update_first (matches cmp q) (merge u) docs of (r, docs') \<Rightarrow> (Inr (found r), docs'))
      | UpdateMany q u \<Rightarrow>
          (Inr (JNum (int (length (filter (matches cmp q) docs)))),
           map (\<lambda>d. if matches cmp q d then merge u d else d) docs)
      | DeleteOne q \<Rightarrow>
          (case remove_first (matches cmp q) docs of (r, docs') \<Rightarrow> (Inr (found r), docs'))
      | DeleteMany q \<Rightarrow>
          (Inr (JNum (int (length (filter (matches cmp q) docs)))),
           filter (\<lambda>d. \<not> matches cmp q d) docs)
      | _ \<Rightarrow> other c docs)"

section \<open>A sample environment\<close>

text \<open>An environment on which the actions can be run on concrete requests: the modelled
  validator over the Task schemas (no value counts as a date), a filter validator that
  accepts, \<open>ObjectId.isValid\<close> as the 24-hexadecimal test on strings, a model constructor
  that keeps the draft as it is, and the modelled store (creation and the read
  operations other than \<open>findOne\<close> answer null).\<close>

definition sample_env :: "doc list env" where
  "sample_env =
     \<lparr>validateParamsWithJoi = validateParamsWithJoi_model (\<lambda>v. False),
      validateFilterWithJoi = (\<lambda>b m. Inr \<lparr>isValid = True, message = []\<rparr>),
      ObjectId_isValid = (\<lambda>v. case v of JStr s \<Rightarrow> is_hex24 s | _ \<Rightarrow> False),
      newModel = Inr,
      dbService = model_store (\<lambda>c v. False) (\<lambda>c docs. (Inr JNull, docs)),
      schemaKeys = Task_schemaKeys,
      updateSchemaKeys = Task_updateSchemaKeys\<rparr>"

definition alice :: jsval where
  "alice = JObj [(''id'', JStr ''alice'')]"

text \<open>Sample requests and a sample collection.\<close>

definition mallory_req :: req where
  "mallory_req =
     \<lparr>body = JObj [(''data'', JObj [(''addedBy'', JStr ''mallory''), (''title'', JStr ''x'')])],
      params = [], user = alice\<rparr>"


definition no_id_req :: req where
  "no_id_req = \<lparr>body = JObj [], params = [], user = alice\<rparr>"

definition abc_docs :: "doc list" where
  "abc_docs = [[(''_id'', JStr ''abc''), (''title'', JStr ''t'')]]"

definition empty_list_req :: req where
  "empty_list_req =
     \<lparr>body = JObj [(''data'', JArr []), (''ids'', JStr ''x'')], params = [], user = alice\<rparr>"

definition no_body_req :: req where
  "no_body_req = \<lparr>body = JUndefined, params = [], user = alice\<rparr>"

definition hex_id :: jsval where
  "hex_id = JStr ''0123456789abcdef01234567''"

definition hex_req :: req where
  "hex_req = \<lparr>body = JObj [(''ids'', JArr [hex_id])], params = [(''id'', hex_id)], user = alice\<rparr>"

definition hex_docs :: "doc list" where
  "hex_docs = [[(''_id'', hex_id), (''title'', JStr ''t'')]]"

definition create_req :: req where
  "create_req =
     \<lparr>body = JObj [(''title'', JStr ''x''), (''addedBy'', JStr ''mallory''),
                   (''data'', JArr [JObj [(''addedBy'', JStr ''mallory'')]])],
      params = [], user = alice\<rparr>"

definition filter_req :: req where
  "filter_req = \<lparr>body = JObj [(''filter'', JObj [(''status'', JNum 1)])], params = [], user = alice\<rparr>"



text \<open>Two response formatters: one whose constructors always send, and one that throws
  when a response has been sent already.\<close>

definition res_ok :: res where
  "res_ok r es = None"


section \<open>What the claims speak about\<close>

text \<open>The update body of both soft-delete actions:
  \<open>{ isDeleted: true, updatedBy: req.user.id }\<close>.\<close>

definition softDelete_body :: "jsval \<Rightarrow> jsval" where
  "softDelete_body uid = JObj [(''isDeleted'', JBool True), (''updatedBy'', uid)]"

text \<open>A document without the fields \<open>ks\<close>.\<close>

definition without :: "string list \<Rightarrow> doc \<Rightarrow> doc" where
  "without ks d = fold AList.delete ks d"

text \<open>The filter of \<open>bulkUpdateTask\<close>:
  \<open>req.body && req.body.filter ? { ...req.body.filter } : {}\<close>.\<close>

definition bulk_filter :: "req \<Rightarrow> jsval" where
  "bulk_filter req =
     (case and_prop (body req) ''filter'' of
        Inl e \<Rightarrow> JObj []
      | Inr f \<Rightarrow> JObj (if truthy f then own_props f else []))"


text \<open>A caught value whose \<open>message\<close> can be read: an \<open>Error\<close> object, or any value
  other than \<open>undefined\<close> and \<open>null\<close>.\<close>

definition readable :: "exn \<Rightarrow> bool" where
  "readable e = (case error_message e of Inl t \<Rightarrow> False | Inr m \<Rightarrow> True)"






lemmas act_defs =
  act_return_def act_bind_def lift_def try_catch_def respond_def call_db_def on_error_def
  run_def escaped_def trace_def store_after_def res_ok_def

section \<open>Properties of the values and of the modelled store\<close>

lemma not_truthy_not_filled: "\<not> truthy v \<Longrightarrow> not_filled_array v"
  by (cases v) auto

lemma falsy_data: "\<not> truthy b \<Longrightarrow> get_prop b ''data'' = Inr v \<Longrightarrow> v = JUndefined"
  by (cases b) (auto simp: lookup_def)

lemma and_prop_total: "\<exists>v. and_prop b k = Inr v"
  by (cases b) (auto simp: and_prop_def)

lemma merge_soft:
  "merge (softDelete_body uid) d =
     AList.update ''updatedBy'' uid (AList.update ''isDeleted'' (JBool True) d)"
  by (simp add: merge_def softDelete_body_def)

lemma without_merge_soft:
  "without [''isDeleted'', ''updatedBy''] (merge (softDelete_body uid) d) =
   without [''isDeleted'', ''updatedBy''] d"
  by (simp add: merge_soft without_def delete_update delete_update_same
      delete_twist[of "''isDeleted''"])

lemma lookup_merge_soft:
  "k \<noteq> ''isDeleted'' \<Longrightarrow> k \<noteq> ''updatedBy'' \<Longrightarrow> lookup (merge (softDelete_body uid) d) k = lookup d k"
  by (simp add: merge_soft lookup_def update_conv')

lemma isDeleted_merge_soft: "lookup (merge (softDelete_body uid) d) ''isDeleted'' = JBool True"
  by (simp add: merge_soft lookup_def update_conv')

lemma merge_soft_idem:
  "merge (softDelete_body uid) (merge (softDelete_body uid) d) = merge (softDelete_body uid) d"
proof -
  let ?d1 = "AList.update ''isDeleted'' (JBool True) d"
  let ?d2 = "AList.update ''updatedBy'' uid ?d1"
  have a: "AList.update ''isDeleted'' (JBool True) ?d2 = ?d2"
    by (rule update_triv) (simp add: update_conv')
  have b: "AList.update ''updatedBy'' uid ?d2 = ?d2"
    by (rule update_triv) (simp add: update_conv')
  show ?thesis by (simp only: merge_soft a b)
qed

lemma matches_id_merge_soft:
  "matches cmp (JObj [(''_id'', i)]) (merge (softDelete_body uid) d) =
   matches cmp (JObj [(''_id'', i)]) d"
  by (simp add: matches_def lookup_merge_soft)

lemma update_first_frame: "(\<And>d. g (f d) = g d) \<Longrightarrow> map g (snd (update_first P f ds)) = map g ds"
  by (induction ds) (simp_all add: case_prod_beta)

lemma update_first_fst: "fst (update_first P f ds) = map_option f (find P ds)"
  by (induction ds) (simp_all add: case_prod_beta)

lemma update_first_find:
  "(\<And>d. P (f d) = P d) \<Longrightarrow> find P (snd (update_first P f ds)) = map_option f (find P ds)"
  by (induction ds) (simp_all add: case_prod_beta)

lemma update_first_twice:
  "(\<And>d. P (f d) = P d) \<Longrightarrow> (\<And>d. f (f d) = f d) \<Longrightarrow>
   update_first P f (snd (update_first P f ds)) = update_first P f ds"
  by (induction ds) (simp_all add: case_prod_beta)

section \<open>Validation depends on the declared fields only\<close>

lemma map_of_filter_key:
  "map_of (filter (\<lambda>kv. Q (fst kv)) p) k = (if Q k then map_of p k else None)"
  by (induction p) auto

lemma declared_key: "(k, t, a) \<in> set ks \<Longrightarrow> map_of ks k \<noteq> None"
  by (induction ks) auto

lemma map_of_declared_part:
  "map_of (joi_keys S) k \<noteq> None \<Longrightarrow> map_of (declared_part S p) k = map_of p k"
  unfolding declared_part_def by (induction p) auto

lemma field_fails_declared_part:
  assumes "decl \<in> set (joi_keys S)"
  shows "field_fails isDate (declared_part S p) decl = field_fails isDate p decl"
proof -
  obtain k t a where decl: "decl = (k, t, a)" by (cases decl) auto
  have "map_of (joi_keys S) k \<noteq> None" using assms decl by (auto dest: declared_key)
  then have "map_of (declared_part S p) k = map_of p k" by (rule map_of_declared_part)
  then show ?thesis by (simp add: field_fails_def decl)
qed

lemma field_fails_update_other:
  "map_of (joi_keys S) k = None \<Longrightarrow> decl \<in> set (joi_keys S) \<Longrightarrow>
   field_fails isDate (AList.update k v p) decl = field_fails isDate p decl"
  by (cases decl) (auto simp add: field_fails_def update_conv' dest: declared_key)

lemma valid_payload_unknown:
  "joi_unknown S \<Longrightarrow>
   valid_payload isDate p S = (filter (field_fails isDate p) (joi_keys S) = [])"
  by (simp add: valid_payload_def validateParamsWithJoi_model_def violations_def)

lemma valid_declared_part:
  assumes "joi_unknown S"
  shows "valid_payload isDate p S = valid_payload isDate (declared_part S p) S"
proof -
  have "filter (field_fails isDate (declared_part S p)) (joi_keys S) =
        filter (field_fails isDate p) (joi_keys S)"
    by (rule filter_cong) (simp_all add: field_fails_declared_part)
  then show ?thesis by (simp add: valid_payload_unknown[OF assms])
qed

lemma valid_update_other:
  assumes "joi_unknown S" and "map_of (joi_keys S) k = None"
  shows "valid_payload isDate (AList.update k v p) S = valid_payload isDate p S"
proof -
  have "filter (field_fails isDate (AList.update k v p)) (joi_keys S) =
        filter (field_fails isDate p) (joi_keys S)"
    by (rule filter_cong) (simp_all add: field_fails_update_other[OF assms(2)])
  then show ?thesis by (simp add: valid_payload_unknown[OF assms(1)])
qed

lemma valid_empty: "valid_payload isDate [] S"
  by (simp add: valid_payload_def validateParamsWithJoi_model_def violations_def field_fails_def)

section \<open>The drafts of the create actions\<close>

lemma stamp_addedBy_all:
  "stamp_addedBy req ds = Inr ds' \<Longrightarrow> d \<in> set ds' \<Longrightarrow>
   \<exists>kvs uid. d = JObj kvs \<and> get_prop (user req) ''id'' = Inr uid \<and> lookup kvs ''addedBy'' = uid"
  by (induction ds arbitrary: ds') (auto simp add: lookup_def update_conv' split: sum.splits)

lemma stamp_addedBy_length:
  "stamp_addedBy req ds = Inr ds' \<Longrightarrow> length ds' = length ds"
  by (induction ds arbitrary: ds') (auto split: sum.splits)

lemma lookup_update_same: "lookup (AList.update k v kvs) k = v"
  by (simp add: lookup_def update_conv')

lemmas eval_defs =
  sample_env_def alice_def lookup_def model_store_def found_def matches_def merge_def
  validateParamsWithJoi_model_def violations_def field_fails_def valid_payload_def
  Task_schemaKeys_def Task_updateSchemaKeys_def is_hex24_def softDelete_body_def without_def
  and_prop_def declared_part_def

section \<open>Soft delete on the modelled store\<close>

lemma softDelete_run:
  assumes "dbService env = model_store cmp other"
  shows "run (softDeleteTask env req res_ok) docs =
    (if \<not> truthy (lookup (params req) ''id'') then
       (Inr (), [Res (BadRequest (Some ''Insufficient request parameters! id is required.''))], docs)
     else case get_prop (user req) ''id'' of
       Inl e \<Rightarrow>
         (case error_message e of
            Inl t \<Rightarrow> (Inl t, [], docs)
          | Inr m \<Rightarrow> (Inr (), [Res (InternalServerError m)], docs))
     | Inr uid \<Rightarrow>
        (Inr (),
         [Db (UpdateOne (JObj [(''_id'', lookup (params req) ''id'')]) (softDelete_body uid)),
          Res (case find (matches cmp (JObj [(''_id'', lookup (params req) ''id'')])) docs of
                 None \<Rightarrow> RecordNotFound
               | Some d \<Rightarrow> Success (JObj (merge (softDelete_body uid) d)))],
         snd (update_first (matches cmp (JObj [(''_id'', lookup (params req) ''id'')]))
                (merge (softDelete_body uid)) docs)))"
proof (cases "truthy (lookup (params req) ''id'')")
  case False
  then show ?thesis by (simp add: softDeleteTask_def act_defs)
next
  case True
  show ?thesis
  proof (cases "get_prop (user req) ''id''")
    case (Inl e)
    with True show ?thesis by (simp add: softDeleteTask_def act_defs split: sum.splits)
  next
    case (Inr uid)
    obtain r docs' where u:
      "update_first (matches cmp (JObj [(''_id'', lookup (params req) ''id'')]))
         (merge (softDelete_body uid)) docs = (r, docs')"
      by fastforce
    have r: "r = map_option (merge (softDelete_body uid))
                   (find (matches cmp (JObj [(''_id'', lookup (params req) ''id'')])) docs)"
      using update_first_fst[of "matches cmp (JObj [(''_id'', lookup (params req) ''id'')])"
          "merge (softDelete_body uid)" docs] u by simp
    show ?thesis using True Inr assms u r
      by (simp add: softDeleteTask_def act_defs model_store_def softDelete_body_def[symmetric]
          found_def split: option.splits)
  qed
qed

lemma softDelete_calls:
  "c \<in> set (db_calls (trace (run (softDeleteTask env req res) s))) \<Longrightarrow>
   \<exists>uid. get_prop (user req) ''id'' = Inr uid \<and>
     c = UpdateOne (JObj [(''_id'', lookup (params req) ''id'')]) (softDelete_body uid)"
  by (auto simp add: softDeleteTask_def act_defs softDelete_body_def split: prod.splits sum.splits if_splits option.splits)

lemma softDeleteMany_calls:
  "c \<in> set (db_calls (trace (run (softDeleteManyTask env req res) s))) \<Longrightarrow>
   \<exists>uid ids. get_prop (user req) ''id'' = Inr uid \<and> get_prop (body req) ''ids'' = Inr ids \<and>
     c = UpdateMany (JObj [(''_id'', JObj [(''$in'', ids)])]) (softDelete_body uid)"
  by (auto simp add: softDeleteManyTask_def act_defs softDelete_body_def split: prod.splits sum.splits if_splits option.splits)

lemma without_merge_soft_body:
  "without [''isDeleted'', ''updatedBy''] (merge (JObj [(''isDeleted'', JBool True), (''updatedBy'', uid)]) d) =
   without [''isDeleted'', ''updatedBy''] d"
  using without_merge_soft[of uid d] by (simp add: softDelete_body_def)

lemma update_first_soft_frame:
  "map (without [''isDeleted'', ''updatedBy''])
     (snd (update_first P (merge (JObj [(''isDeleted'', JBool True), (''updatedBy'', uid)])) docs)) =
   map (without [''isDeleted'', ''updatedBy'']) docs"
  by (rule update_first_frame) (rule without_merge_soft_body)

lemma map_soft_frame:
  "map (without [''isDeleted'', ''updatedBy''])
     (map (\<lambda>d. if P d then merge (JObj [(''isDeleted'', JBool True), (''updatedBy'', uid)]) d else d) docs) =
   map (without [''isDeleted'', ''updatedBy'']) docs"
  by (induction docs) (simp_all add: without_merge_soft_body)

lemma softDelete_frame:
  assumes "dbService env = model_store cmp other"
  shows "map (without [''isDeleted'', ''updatedBy'']) (store_after (run (softDeleteTask env req res) docs)) =
         map (without [''isDeleted'', ''updatedBy'']) docs"
proof -
  have u: "\<And>P uid r docs'.
      update_first P (merge (JObj [(''isDeleted'', JBool True), (''updatedBy'', uid)])) docs = (r, docs') \<Longrightarrow>
      map (without [''isDeleted'', ''updatedBy'']) docs' = map (without [''isDeleted'', ''updatedBy'']) docs"
    using update_first_soft_frame by (metis snd_conv)
  show ?thesis
    using assms
    by (auto simp add: softDeleteTask_def act_defs model_store_def u
        split: prod.splits sum.splits option.splits)
qed

lemma softDeleteMany_frame:
  assumes "dbService env = model_store cmp other"
  shows "map (without [''isDeleted'', ''updatedBy'']) (store_after (run (softDeleteManyTask env req res) docs)) =
         map (without [''isDeleted'', ''updatedBy'']) docs"
  using assms
  by (auto simp add: softDeleteManyTask_def act_defs model_store_def map_soft_frame
      simp del: map_map split: prod.splits sum.splits option.splits)

lemma getTask_after_softDelete:
  assumes st: "dbService env = model_store cmp other"
    and ok: "ObjectId_isValid env (lookup (params req) ''id'')"
    and id: "truthy (lookup (params req) ''id'')"
    and uid: "get_prop (user req) ''id'' = Inr uid"
    and d: "find (matches cmp (JObj [(''_id'', lookup (params req) ''id'')])) docs = Some d"
  shows "trace (run (getTask env req res_ok) (store_after (run (softDeleteTask env req res_ok) docs))) =
     [Db (FindOne (JObj [(''_id'', lookup (params req) ''id'')]) (JObj [])),
      Res (Success (JObj (merge (softDelete_body uid) d)))]"
proof -
  let ?P = "matches cmp (JObj [(''_id'', lookup (params req) ''id'')])"
  let ?f = "merge (softDelete_body uid)"
  have s: "store_after (run (softDeleteTask env req res_ok) docs) = snd (update_first ?P ?f docs)"
    by (simp add: softDelete_run[OF st] id uid store_after_def)
  have f: "find ?P (snd (update_first ?P ?f docs)) = Some (?f d)"
    using update_first_find[of ?P ?f docs] d by (simp add: matches_id_merge_soft)
  show ?thesis
    unfolding s using ok st f
    by (simp add: getTask_def act_defs model_store_def found_def)
qed

lemma softDelete_twice:
  assumes st: "dbService env = model_store cmp other"
    and id: "truthy (lookup (params req) ''id'')"
    and uid: "get_prop (user req) ''id'' = Inr uid"
    and d: "find (matches cmp (JObj [(''_id'', lookup (params req) ''id'')])) docs = Some d"
  shows "store_after (run (softDeleteTask env req res_ok) (store_after (run (softDeleteTask env req res_ok) docs))) =
           store_after (run (softDeleteTask env req res_ok) docs)"
    and "responses (trace (run (softDeleteTask env req res_ok) (store_after (run (softDeleteTask env req res_ok) docs)))) =
           [Success (JObj (merge (softDelete_body uid) d))]"
    and "find (matches cmp (JObj [(''_id'', lookup (params req) ''id'')])) (store_after (run (softDeleteTask env req res_ok) docs))
          = Some (merge (softDelete_body uid) d)"
proof -
  let ?P = "matches cmp (JObj [(''_id'', lookup (params req) ''id'')])"
  let ?f = "merge (softDelete_body uid)"
  have s: "store_after (run (softDeleteTask env req res_ok) docs) = snd (update_first ?P ?f docs)"
    by (simp add: softDelete_run[OF st] id uid store_after_def)
  have f: "find ?P (snd (update_first ?P ?f docs)) = Some (?f d)"
    using update_first_find[of ?P ?f docs] d by (simp add: matches_id_merge_soft)
  have t: "update_first ?P ?f (snd (update_first ?P ?f docs)) = update_first ?P ?f docs"
    by (rule update_first_twice) (simp_all add: matches_id_merge_soft merge_soft_idem)
  show "store_after (run (softDeleteTask env req res_ok) (store_after (run (softDeleteTask env req res_ok) docs))) =
           store_after (run (softDeleteTask env req res_ok) docs)"
    unfolding s by (simp add: softDelete_run[OF st] id uid store_after_def t)
  show "responses (trace (run (softDeleteTask env req res_ok) (store_after (run (softDeleteTask env req res_ok) docs)))) =
           [Success (JObj (merge (softDelete_body uid) d))]"
    unfolding s by (simp add: softDelete_run[OF st] id uid trace_def f merge_soft_idem)
  show "find ?P (store_after (run (softDeleteTask env req res_ok) docs)) = Some (?f d)"
    unfolding s by (rule f)
qed

section \<open>Store calls of the actions\<close>

lemma addTask_calls_draft:
  "c \<in> set (db_calls (trace (run (addTask env req res) s))) \<Longrightarrow>
   \<exists>uid doc. get_prop (user req) ''id'' = Inr uid \<and>
      newModel env (JObj (AList.update ''addedBy'' uid
         (own_props (if truthy (body req) then body req else JObj [])))) = Inr doc \<and> c = Create doc"
  by (auto simp add: addTask_def act_defs Let_def split: prod.splits sum.splits if_splits option.splits)

lemma addTask_calls:
  assumes "c \<in> set (db_calls (trace (run (addTask env req res) s)))"
  shows "\<exists>draft uid doc. get_prop (user req) ''id'' = Inr uid \<and> lookup draft ''addedBy'' = uid \<and>
      newModel env (JObj draft) = Inr doc \<and> c = Create doc"
proof -
  from addTask_calls_draft[OF assms] obtain uid doc where
    u: "get_prop (user req) ''id'' = Inr uid" and
    n: "newModel env (JObj (AList.update ''addedBy'' uid
         (own_props (if truthy (body req) then body req else JObj [])))) = Inr doc" and
    c: "c = Create doc" by blast
  show ?thesis using u n c lookup_update_same by blast
qed

lemma bulkInsertTask_calls_stamped:
  "c \<in> set (db_calls (trace (run (bulkInsertTask env req res) s))) \<Longrightarrow>
   \<exists>xs drafts. stamp_addedBy req xs = Inr drafts \<and> c = Create (JArr drafts)"
  by (auto simp add: bulkInsertTask_def act_defs split: prod.splits sum.splits if_splits option.splits)

lemma bulkInsertTask_calls:
  assumes "c \<in> set (db_calls (trace (run (bulkInsertTask env req res) s)))"
  shows "\<exists>drafts. c = Create (JArr drafts) \<and>
     (\<forall>d \<in> set drafts. \<exists>kvs uid. d = JObj kvs \<and> get_prop (user req) ''id'' = Inr uid \<and>
        lookup kvs ''addedBy'' = uid)"
proof -
  from bulkInsertTask_calls_stamped[OF assms] obtain xs drafts where
    st: "stamp_addedBy req xs = Inr drafts" and c: "c = Create (JArr drafts)" by blast
  have "\<forall>d \<in> set drafts. \<exists>kvs uid. d = JObj kvs \<and> get_prop (user req) ''id'' = Inr uid \<and>
        lookup kvs ''addedBy'' = uid"
    using stamp_addedBy_all[OF st] by blast
  with c show ?thesis by blast
qed

lemma addTask_calls_plain:
  assumes id: "\<And>v. newModel env v = Inr v"
    and c: "c \<in> set (db_calls (trace (run (addTask env req res) s)))"
  shows "\<exists>kvs uid. get_prop (user req) ''id'' = Inr uid \<and> lookup kvs ''addedBy'' = uid \<and>
           c = Create (JObj kvs)"
proof -
  from addTask_calls[OF c] obtain draft uid doc where
    u: "get_prop (user req) ''id'' = Inr uid" and l: "lookup draft ''addedBy'' = uid" and
    n: "newModel env (JObj draft) = Inr doc" and e: "c = Create doc"
    by (elim exE conjE)
  from n id[of "JObj draft"] have "doc = JObj draft" by simp
  with u l e show ?thesis by (intro exI[of _ draft] exI[of _ uid]) simp
qed

lemma updateTask_calls:
  "c \<in> set (db_calls (trace (run (updateTask env req res) s))) \<Longrightarrow>
   \<exists>u. c = UpdateOne (JObj [(''_id'', lookup (params req) ''id'')]) u"
  by (auto simp add: updateTask_def act_defs Let_def split: prod.splits sum.splits if_splits option.splits)

lemma partialUpdateTask_calls:
  "c \<in> set (db_calls (trace (run (partialUpdateTask env req res) s))) \<Longrightarrow>
   \<exists>u. c = UpdateOne (JObj [(''_id'', lookup (params req) ''id'')]) u"
  by (auto simp add: partialUpdateTask_def act_defs Let_def split: prod.splits sum.splits if_splits option.splits)





lemma softDeleteTask_calls_id:
  assumes "c \<in> set (db_calls (trace (run (softDeleteTask env req res) s)))"
  shows "\<exists>u. c = UpdateOne (JObj [(''_id'', lookup (params req) ''id'')]) u"
proof -
  from softDelete_calls[OF assms] obtain uid where
    "c = UpdateOne (JObj [(''_id'', lookup (params req) ''id'')]) (softDelete_body uid)"
    by (elim exE conjE)
  then show ?thesis by (rule exI)
qed





lemma bulkInsertTask_rejects:
  "truthy (body req) \<Longrightarrow> get_prop (body req) ''data'' = Inr d \<Longrightarrow> not_filled_array d \<Longrightarrow>
   run (bulkInsertTask env req res_ok) s = (Inr (), [Res (BadRequest None)], s)"
  by (simp add: bulkInsertTask_def act_defs and_prop_def)

lemma deleteManyTask_rejects:
  "get_prop (body req) ''ids'' = Inr ids \<Longrightarrow> not_filled_array ids \<Longrightarrow>
   run (deleteManyTask env req res_ok) s = (Inr (), [Res (BadRequest None)], s)"
  by (simp add: deleteManyTask_def act_defs)

lemma softDeleteManyTask_rejects:
  "get_prop (body req) ''ids'' = Inr ids \<Longrightarrow> not_filled_array ids \<Longrightarrow>
   run (softDeleteManyTask env req res_ok) s = (Inr (), [Res (BadRequest None)], s)"
  by (simp add: softDeleteManyTask_def act_defs)

lemma bulkInsertTask_no_call:
  "(\<And>d. get_prop (body req) ''data'' = Inr d \<Longrightarrow> not_filled_array d) \<Longrightarrow>
   db_calls (trace (run (bulkInsertTask env req res) s)) = []"
  by (auto simp add: bulkInsertTask_def act_defs and_prop_def dest: falsy_data
      split: prod.splits sum.splits if_splits option.splits)

lemma deleteManyTask_no_call:
  "(\<And>d. get_prop (body req) ''ids'' = Inr d \<Longrightarrow> not_filled_array d) \<Longrightarrow>
   db_calls (trace (run (deleteManyTask env req res) s)) = []"
  by (auto simp add: deleteManyTask_def act_defs split: prod.splits sum.splits if_splits option.splits)

lemma softDeleteManyTask_no_call:
  "(\<And>d. get_prop (body req) ''ids'' = Inr d \<Longrightarrow> not_filled_array d) \<Longrightarrow>
   db_calls (trace (run (softDeleteManyTask env req res) s)) = []"
  by (auto simp add: softDeleteManyTask_def act_defs split: prod.splits sum.splits if_splits option.splits)

lemma deleteManyTask_no_body:
  "get_prop (body req) ''ids'' = Inl e \<Longrightarrow> error_message e = Inr m \<Longrightarrow>
   run (deleteManyTask env req res_ok) s = (Inr (), [Res (InternalServerError m)], s)"
  by (simp add: deleteManyTask_def act_defs)

lemma softDeleteManyTask_no_body:
  "get_prop (body req) ''ids'' = Inl e \<Longrightarrow> error_message e = Inr m \<Longrightarrow>
   run (softDeleteManyTask env req res_ok) s = (Inr (), [Res (InternalServerError m)], s)"
  by (simp add: softDeleteManyTask_def act_defs)

lemma get_prop_throws_readable:
  "get_prop v k = Inl e \<Longrightarrow> \<exists>m. error_message e = Inr m"
  by (cases v) (auto simp: TypeError_def)

lemma hex_facts:
  "dbService sample_env = model_store (\<lambda>c v. False) (\<lambda>c docs. (Inr JNull, docs))"
  "ObjectId_isValid sample_env (lookup (params hex_req) ''id'')"
  "truthy (lookup (params hex_req) ''id'')"
  "get_prop (user hex_req) ''id'' = Inr (JStr ''alice'')"
  "find (matches (\<lambda>c v. False) (JObj [(''_id'', lookup (params hex_req) ''id'')])) hex_docs =
     Some [(''_id'', hex_id), (''title'', JStr ''t'')]"
  "merge (softDelete_body (JStr ''alice'')) [(''_id'', hex_id), (''title'', JStr ''t'')] =
     [(''_id'', hex_id), (''title'', JStr ''t''), (''isDeleted'', JBool True), (''updatedBy'', JStr ''alice'')]"
  by (simp_all add: eval_defs hex_req_def hex_docs_def hex_id_def)

lemma softDelete_once_response:
  assumes st: "dbService env = model_store cmp other"
    and id: "truthy (lookup (params req) ''id'')"
    and uid: "get_prop (user req) ''id'' = Inr uid"
    and d: "find (matches cmp (JObj [(''_id'', lookup (params req) ''id'')])) docs = Some d"
  shows "responses (trace (run (softDeleteTask env req res_ok) docs)) =
           [Success (JObj (merge (softDelete_body uid) d))]"
  by (simp add: softDelete_run[OF st] id uid d trace_def)

lemma create_facts:
  "db_calls (trace (run (addTask sample_env create_req res_ok) abc_docs)) =
     [Create (JObj [(''title'', JStr ''x''), (''addedBy'', JStr ''alice''),
                    (''data'', JArr [JObj [(''addedBy'', JStr ''mallory'')]])])]"
  "db_calls (trace (run (bulkInsertTask sample_env create_req res_ok) abc_docs)) =
     [Create (JArr [JObj [(''addedBy'', JStr ''alice'')]])]"
  "\<forall>v. newModel sample_env v = Inr v"
  by (simp_all add: addTask_def bulkInsertTask_def act_defs eval_defs create_req_def abc_docs_def Let_def)

section \<open>What an action throws, sends and calls\<close>

lemma readable_Error: "readable (Error m)"
  by (simp add: readable_def)







lemma readable_not_Inl: "readable e \<Longrightarrow> error_message e = Inl t \<Longrightarrow> False"
  by (simp add: readable_def)





























































































section \<open>All twelve actions; sample facts\<close>

lemma no_body_internal_error:
  assumes "body req = JUndefined \<or> body req = JNull"
  shows "\<exists>m. run (deleteManyTask env req res_ok) s = (Inr (), [Res (InternalServerError (JStr m))], s) \<and>
             run (softDeleteManyTask env req res_ok) s = (Inr (), [Res (InternalServerError (JStr m))], s)"
  using assms
  by (auto simp add: deleteManyTask_def softDeleteManyTask_def act_defs TypeError_def)









section \<open>The claims\<close>

text \<open>
  C1. Claimed: every update, partial-update and bulk-update action removes a
  caller-supplied \<open>addedBy\<close> from the data it merges into the store update.
  \<open>bulkUpdateTask\<close> deletes \<open>addedBy\<close> from the empty object it starts with, before
  the request's data is spread into a new object; the request's \<open>addedBy\<close> therefore
  reaches \<open>updateMany\<close>. Evaluated on a request whose data carries
  \<open>addedBy: 'mallory'\<close>, for any environment, response formatter and store: the one
  store call is \<open>updateMany\<close> with \<open>addedBy: 'mallory'\<close> in its update.
\<close>

theorem C1_bulkUpdate_keeps_addedBy:
  "db_calls (trace (run (bulkUpdateTask env mallory_req res) s)) =
     [UpdateMany (JObj [])
        (JObj [(''addedBy'', JStr ''mallory''), (''title'', JStr ''x''),
               (''updatedBy'', JStr ''alice'')])]"
  by (auto simp add: bulkUpdateTask_def act_defs and_prop_def lookup_def mallory_req_def alice_def
      split: prod.splits sum.splits option.splits)

theorem C1_bulkUpdate_keeps_addedBy_witness:
  "db_calls (trace (run (bulkUpdateTask sample_env mallory_req res_ok) [])) =
     [UpdateMany (JObj [])
        (JObj [(''addedBy'', JStr ''mallory''), (''title'', JStr ''x''),
               (''updatedBy'', JStr ''alice'')])]"
  by (rule C1_bulkUpdate_keeps_addedBy)




text \<open>
  C3. Claimed: \<open>partialUpdate\<close> without a path identifier ends early with a bad
  request: no validation, no store call. \<open>partialUpdateTask\<close> calls
  \<open>res.badRequest\<close> without returning (its siblings \<open>softDeleteTask\<close> and
  \<open>deleteTask\<close> return there), so the action goes on. Evaluated on a request with no
  identifier: after the bad request the payload is validated, \<open>updateOne\<close> is called
  with \<open>_id: undefined\<close>, and a second response is sent.
\<close>

theorem C3_partialUpdate_continues:
  "run (partialUpdateTask sample_env no_id_req res_ok) abc_docs =
     (Inr (),
      [Res (BadRequest (Some ''Insufficient request parameters! id is required.'')),
       Db (UpdateOne (JObj [(''_id'', JUndefined)]) (JObj [(''updatedBy'', JStr ''alice'')])),
       Res RecordNotFound],
      abc_docs)"
  by (simp add: partialUpdateTask_def act_defs eval_defs no_id_req_def abc_docs_def)

theorem C3_partialUpdate_continues_witness:
  "db_calls (trace (run (partialUpdateTask sample_env no_id_req res_ok) abc_docs)) =
     [UpdateOne (JObj [(''_id'', JUndefined)]) (JObj [(''updatedBy'', JStr ''alice'')])]"
  using C3_partialUpdate_continues by (simp add: trace_def)

text \<open>
  C4. Claimed: a bulk action (bulkInsert, deleteMany, softDeleteMany) whose \<open>data\<close> or
  \<open>ids\<close> is empty, not an array or absent answers with a bad request and calls no
  store operation. It fails where the list is absent because the body is:
  \<open>deleteManyTask\<close> reads \<open>req.body.ids\<close> of an undefined body, the read throws, and
  the answer is the internal error.
\<close>

theorem C4_counterexample:
  "body no_body_req = JUndefined \<and>
   run (deleteManyTask sample_env no_body_req res_ok) abc_docs =
     (Inr (),
      [Res (InternalServerError
              (JStr ''TypeError: Cannot read properties of undefined, reading ids''))],
      abc_docs)"
  by (simp add: deleteManyTask_def act_defs no_body_req_def TypeError_def)

text \<open>
  C4, as the code has it. A bulk action whose request has a body (for
  \<open>bulkInsertTask\<close>, whose test begins with \<open>req.body &&\<close>, a truthy body; for
  \<open>deleteManyTask\<close> and \<open>softDeleteManyTask\<close> a body other than undefined and null)
  and whose \<open>data\<close> or \<open>ids\<close> in that body is empty, not an array or absent answers
  with a bad request and calls no store operation. \<open>deleteManyTask\<close> and
  \<open>softDeleteManyTask\<close> on a request whose body is undefined or null answer with the
  internal error and call no store operation. Whatever the body is, none of the three
  calls a store operation unless the list is a filled array.
\<close>

theorem C4_bulk_rejects:
  "(truthy (body req) \<and> get_prop (body req) ''data'' = Inr d \<and> not_filled_array d \<longrightarrow>
      run (bulkInsertTask env req res_ok) s = (Inr (), [Res (BadRequest None)], s))
   \<and> (get_prop (body req) ''ids'' = Inr ids \<and> not_filled_array ids \<longrightarrow>
      run (deleteManyTask env req res_ok) s = (Inr (), [Res (BadRequest None)], s) \<and>
      run (softDeleteManyTask env req res_ok) s = (Inr (), [Res (BadRequest None)], s))
   \<and> ((\<forall>v. get_prop (body req) ''data'' = Inr v \<longrightarrow> not_filled_array v) \<longrightarrow>
      db_calls (trace (run (bulkInsertTask env req res) s)) = [])
   \<and> ((\<forall>v. get_prop (body req) ''ids'' = Inr v \<longrightarrow> not_filled_array v) \<longrightarrow>
      db_calls (trace (run (deleteManyTask env req res) s)) = [] \<and>
      db_calls (trace (run (softDeleteManyTask env req res) s)) = [])
   \<and> (body req = JUndefined \<or> body req = JNull \<longrightarrow>
      (\<exists>m. run (deleteManyTask env req res_ok) s =
             (Inr (), [Res (InternalServerError (JStr m))], s) \<and>
           run (softDeleteManyTask env req res_ok) s =
             (Inr (), [Res (InternalServerError (JStr m))], s)))"
proof (intro conjI impI)
  assume "truthy (body req) \<and> get_prop (body req) ''data'' = Inr d \<and> not_filled_array d"
  then show "run (bulkInsertTask env req res_ok) s = (Inr (), [Res (BadRequest None)], s)"
    by (simp add: bulkInsertTask_rejects)
next
  assume "get_prop (body req) ''ids'' = Inr ids \<and> not_filled_array ids"
  then show "run (deleteManyTask env req res_ok) s = (Inr (), [Res (BadRequest None)], s)"
    by (simp add: deleteManyTask_rejects)
next
  assume "get_prop (body req) ''ids'' = Inr ids \<and> not_filled_array ids"
  then show "run (softDeleteManyTask env req res_ok) s = (Inr (), [Res (BadRequest None)], s)"
    by (simp add: softDeleteManyTask_rejects)
next
  assume "\<forall>v. get_prop (body req) ''data'' = Inr v \<longrightarrow> not_filled_array v"
  then show "db_calls (trace (run (bulkInsertTask env req res) s)) = []"
    by (intro bulkInsertTask_no_call) simp
next
  assume "\<forall>v. get_prop (body req) ''ids'' = Inr v \<longrightarrow> not_filled_array v"
  then show "db_calls (trace (run (deleteManyTask env req res) s)) = []"
    by (intro deleteManyTask_no_call) simp
next
  assume "\<forall>v. get_prop (body req) ''ids'' = Inr v \<longrightarrow> not_filled_array v"
  then show "db_calls (trace (run (softDeleteManyTask env req res) s)) = []"
    by (intro softDeleteManyTask_no_call) simp
next
  assume "body req = JUndefined \<or> body req = JNull"
  then show "\<exists>m. run (deleteManyTask env req res_ok) s =
             (Inr (), [Res (InternalServerError (JStr m))], s) \<and>
           run (softDeleteManyTask env req res_ok) s =
             (Inr (), [Res (InternalServerError (JStr m))], s)"
    by (rule no_body_internal_error)
qed

theorem C4_bulk_rejects_witness:
  "truthy (body empty_list_req) \<and>
   get_prop (body empty_list_req) ''data'' = Inr (JArr []) \<and> not_filled_array (JArr []) \<and>
   run (bulkInsertTask sample_env empty_list_req res_ok) abc_docs = (Inr (), [Res (BadRequest None)], abc_docs) \<and>
   get_prop (body empty_list_req) ''ids'' = Inr (JStr ''x'') \<and> not_filled_array (JStr ''x'') \<and>
   run (deleteManyTask sample_env empty_list_req res_ok) abc_docs = (Inr (), [Res (BadRequest None)], abc_docs) \<and>
   run (softDeleteManyTask sample_env empty_list_req res_ok) abc_docs = (Inr (), [Res (BadRequest None)], abc_docs) \<and>
   db_calls (trace (run (bulkInsertTask sample_env no_body_req res_ok) abc_docs)) = [] \<and>
   db_calls (trace (run (deleteManyTask sample_env no_body_req res_ok) abc_docs)) = [] \<and>
   db_calls (trace (run (softDeleteManyTask sample_env no_body_req res_ok) abc_docs)) = [] \<and>
   (body no_body_req = JUndefined \<or> body no_body_req = JNull) \<and>
   (\<exists>m. run (deleteManyTask sample_env no_body_req res_ok) abc_docs =
          (Inr (), [Res (InternalServerError (JStr m))], abc_docs) \<and>
        run (softDeleteManyTask sample_env no_body_req res_ok) abc_docs =
          (Inr (), [Res (InternalServerError (JStr m))], abc_docs))"
proof -
  note E = C4_bulk_rejects[where req = empty_list_req and d = "JArr []" and env = sample_env
      and s = abc_docs and ids = "JStr ''x''" and res = res_ok]
  note B = C4_bulk_rejects[where req = no_body_req and d = JUndefined and env = sample_env
      and s = abc_docs and ids = JUndefined and res = res_ok]
  have a: "truthy (body empty_list_req)" by (simp add: empty_list_req_def)
  have b: "get_prop (body empty_list_req) ''data'' = Inr (JArr [])"
    by (simp add: empty_list_req_def lookup_def)
  have c: "get_prop (body empty_list_req) ''ids'' = Inr (JStr ''x'')"
    by (simp add: empty_list_req_def lookup_def)
  have n1: "not_filled_array (JArr [])" by simp
  have n2: "not_filled_array (JStr ''x'')" by simp
  have d: "\<forall>v. get_prop (body no_body_req) ''data'' = Inr v \<longrightarrow> not_filled_array v"
    by (simp add: no_body_req_def)
  have e: "\<forall>v. get_prop (body no_body_req) ''ids'' = Inr v \<longrightarrow> not_filled_array v"
    by (simp add: no_body_req_def)
  have u: "body no_body_req = JUndefined \<or> body no_body_req = JNull"
    by (simp add: no_body_req_def)
  note r1 = E[THEN conjunct1, THEN mp, OF conjI, OF a conjI, OF b n1]
  note r2 = E[THEN conjunct2, THEN conjunct1, THEN mp, OF conjI, OF c n2]
  note r3 = B[THEN conjunct2, THEN conjunct2, THEN conjunct1, THEN mp, OF d]
  note r4 = B[THEN conjunct2, THEN conjunct2, THEN conjunct2, THEN conjunct1, THEN mp, OF e]
  note r5 = B[THEN conjunct2, THEN conjunct2, THEN conjunct2, THEN conjunct2, THEN mp, OF u]
  from a b n1 r1 c n2 r2[THEN conjunct1] r2[THEN conjunct2] r3 r4[THEN conjunct1]
    r4[THEN conjunct2] u r5
  show ?thesis by (intro conjI)
qed

text \<open>
  C5. Every store call of \<open>softDeleteTask\<close> is an \<open>updateOne\<close> on the path
  identifier, and every store call of \<open>softDeleteManyTask\<close> is an \<open>updateMany\<close> on
  the given identifiers, with the update body \<open>{ isDeleted: true, updatedBy }\<close> of
  the caller: never a delete, whatever the response formatter does. On the modelled store the collection is the same after the
  action, document by document, outside the fields \<open>isDeleted\<close> and \<open>updatedBy\<close>,
  and a following \<open>getTask\<close> with the same identifier finds the document that matched,
  with \<open>isDeleted\<close> true.
\<close>

theorem C5_soft_delete_updates_only:
  "(\<forall>c \<in> set (db_calls (trace (run (softDeleteTask env req res) s))).
      \<exists>uid. get_prop (user req) ''id'' = Inr uid \<and>
        c = UpdateOne (JObj [(''_id'', lookup (params req) ''id'')]) (softDelete_body uid))
   \<and> (\<forall>c \<in> set (db_calls (trace (run (softDeleteManyTask env req res) s))).
      \<exists>uid ids. get_prop (user req) ''id'' = Inr uid \<and> get_prop (body req) ''ids'' = Inr ids \<and>
        c = UpdateMany (JObj [(''_id'', JObj [(''$in'', ids)])]) (softDelete_body uid))
   \<and> (dbService menv = model_store cmp other \<longrightarrow>
        map (without [''isDeleted'', ''updatedBy'']) (store_after (run (softDeleteTask menv req res) docs)) =
          map (without [''isDeleted'', ''updatedBy'']) docs \<and>
        map (without [''isDeleted'', ''updatedBy'']) (store_after (run (softDeleteManyTask menv req res) docs)) =
          map (without [''isDeleted'', ''updatedBy'']) docs \<and>
        (ObjectId_isValid menv (lookup (params req) ''id'') \<and> truthy (lookup (params req) ''id'') \<and>
         get_prop (user req) ''id'' = Inr uid \<and>
         find (matches cmp (JObj [(''_id'', lookup (params req) ''id'')])) docs = Some d \<longrightarrow>
           trace (run (getTask menv req res_ok) (store_after (run (softDeleteTask menv req res_ok) docs))) =
             [Db (FindOne (JObj [(''_id'', lookup (params req) ''id'')]) (JObj [])),
              Res (Success (JObj (merge (softDelete_body uid) d)))] \<and>
           lookup (merge (softDelete_body uid) d) ''isDeleted'' = JBool True))"
proof (intro conjI impI ballI)
  fix c assume "c \<in> set (db_calls (trace (run (softDeleteTask env req res) s)))"
  then show "\<exists>uid. get_prop (user req) ''id'' = Inr uid \<and>
        c = UpdateOne (JObj [(''_id'', lookup (params req) ''id'')]) (softDelete_body uid)"
    by (rule softDelete_calls)
next
  fix c assume "c \<in> set (db_calls (trace (run (softDeleteManyTask env req res) s)))"
  then show "\<exists>uid ids. get_prop (user req) ''id'' = Inr uid \<and> get_prop (body req) ''ids'' = Inr ids \<and>
        c = UpdateMany (JObj [(''_id'', JObj [(''$in'', ids)])]) (softDelete_body uid)"
    by (rule softDeleteMany_calls)
next
  assume "dbService menv = model_store cmp other"
  then show "map (without [''isDeleted'', ''updatedBy'']) (store_after (run (softDeleteTask menv req res) docs)) =
          map (without [''isDeleted'', ''updatedBy'']) docs"
    by (rule softDelete_frame)
next
  assume "dbService menv = model_store cmp other"
  then show "map (without [''isDeleted'', ''updatedBy'']) (store_after (run (softDeleteManyTask menv req res) docs)) =
          map (without [''isDeleted'', ''updatedBy'']) docs"
    by (rule softDeleteMany_frame)
next
  assume st: "dbService menv = model_store cmp other"
    and h: "ObjectId_isValid menv (lookup (params req) ''id'') \<and> truthy (lookup (params req) ''id'') \<and>
         get_prop (user req) ''id'' = Inr uid \<and>
         find (matches cmp (JObj [(''_id'', lookup (params req) ''id'')])) docs = Some d"
  from h have h1: "ObjectId_isValid menv (lookup (params req) ''id'')"
    and h2: "truthy (lookup (params req) ''id'')"
    and h3: "get_prop (user req) ''id'' = Inr uid"
    and h4: "find (matches cmp (JObj [(''_id'', lookup (params req) ''id'')])) docs = Some d"
    by simp_all
  show "trace (run (getTask menv req res_ok) (store_after (run (softDeleteTask menv req res_ok) docs))) =
             [Db (FindOne (JObj [(''_id'', lookup (params req) ''id'')]) (JObj [])),
              Res (Success (JObj (merge (softDelete_body uid) d)))]"
    by (rule getTask_after_softDelete[OF st h1 h2 h3 h4])
next
  show "lookup (merge (softDelete_body uid) d) ''isDeleted'' = JBool True"
    by (rule isDeleted_merge_soft)
qed

theorem C5_soft_delete_updates_only_witness:
  "UpdateOne (JObj [(''_id'', hex_id)]) (softDelete_body (JStr ''alice''))
     \<in> set (db_calls (trace (run (softDeleteTask sample_env hex_req res_ok) hex_docs))) \<and>
   UpdateMany (JObj [(''_id'', JObj [(''$in'', JArr [hex_id])])]) (softDelete_body (JStr ''alice''))
     \<in> set (db_calls (trace (run (softDeleteManyTask sample_env hex_req res_ok) hex_docs))) \<and>
   store_after (run (softDeleteTask sample_env hex_req res_ok) hex_docs) =
     [[(''_id'', hex_id), (''title'', JStr ''t''), (''isDeleted'', JBool True),
       (''updatedBy'', JStr ''alice'')]] \<and>
   map (without [''isDeleted'', ''updatedBy'']) (store_after (run (softDeleteTask sample_env hex_req res_ok) hex_docs)) =
     map (without [''isDeleted'', ''updatedBy'']) hex_docs \<and>
   trace (run (getTask sample_env hex_req res_ok) (store_after (run (softDeleteTask sample_env hex_req res_ok) hex_docs))) =
     [Db (FindOne (JObj [(''_id'', hex_id)]) (JObj [])),
      Res (Success (JObj [(''_id'', hex_id), (''title'', JStr ''t''), (''isDeleted'', JBool True),
                          (''updatedBy'', JStr ''alice'')]))]"
proof -
  have a: "UpdateOne (JObj [(''_id'', hex_id)]) (softDelete_body (JStr ''alice''))
     \<in> set (db_calls (trace (run (softDeleteTask sample_env hex_req res_ok) hex_docs)))"
    by (simp add: softDeleteTask_def act_defs eval_defs hex_req_def hex_docs_def hex_id_def)
  have b: "UpdateMany (JObj [(''_id'', JObj [(''$in'', JArr [hex_id])])]) (softDelete_body (JStr ''alice''))
     \<in> set (db_calls (trace (run (softDeleteManyTask sample_env hex_req res_ok) hex_docs)))"
    by (simp add: softDeleteManyTask_def act_defs eval_defs hex_req_def hex_docs_def hex_id_def)
  have c: "store_after (run (softDeleteTask sample_env hex_req res_ok) hex_docs) =
     [[(''_id'', hex_id), (''title'', JStr ''t''), (''isDeleted'', JBool True),
       (''updatedBy'', JStr ''alice'')]]"
    by (simp add: softDeleteTask_def act_defs eval_defs hex_req_def hex_docs_def hex_id_def)
  have i: "lookup (params hex_req) ''id'' = hex_id"
    by (simp add: lookup_def hex_req_def)
  note T = C5_soft_delete_updates_only[where env = sample_env and req = hex_req and res = res_ok
      and s = hex_docs and menv = sample_env and cmp = "\<lambda>c v. False"
      and other = "\<lambda>c docs. (Inr JNull, docs)" and docs = hex_docs and uid = "JStr ''alice''"
      and d = "[(''_id'', hex_id), (''title'', JStr ''t'')]"]
  note M = T[THEN conjunct2, THEN conjunct2, THEN mp, OF hex_facts(1)]
  have h: "ObjectId_isValid sample_env (lookup (params hex_req) ''id'') \<and>
      truthy (lookup (params hex_req) ''id'') \<and>
      get_prop (user hex_req) ''id'' = Inr (JStr ''alice'') \<and>
      find (matches (\<lambda>c v. False) (JObj [(''_id'', lookup (params hex_req) ''id'')])) hex_docs =
        Some [(''_id'', hex_id), (''title'', JStr ''t'')]"
    using hex_facts(2) hex_facts(3) hex_facts(4) hex_facts(5) by (intro conjI)
  note F = M[THEN conjunct1]
  note G = M[THEN conjunct2, THEN conjunct2, THEN mp, OF h, THEN conjunct1]
  have g: "trace (run (getTask sample_env hex_req res_ok) (store_after (run (softDeleteTask sample_env hex_req res_ok) hex_docs))) =
     [Db (FindOne (JObj [(''_id'', hex_id)]) (JObj [])),
      Res (Success (JObj [(''_id'', hex_id), (''title'', JStr ''t''), (''isDeleted'', JBool True),
                          (''updatedBy'', JStr ''alice'')]))]"
    using G by (simp only: i hex_facts(6))
  from a b c F g show ?thesis by (intro conjI)
qed

text \<open>
  C6. On the modelled store, for a request whose identifier matches a document:
  \<open>softDeleteTask\<close> run a second time leaves the store as the first run left it, both
  runs answer success with the same document, which is still found under the identifier
  and has \<open>isDeleted\<close> true.
\<close>

theorem C6_softDelete_idempotent:
  assumes "dbService env = model_store cmp other"
    and "truthy (lookup (params req) ''id'')"
    and "get_prop (user req) ''id'' = Inr uid"
    and "find (matches cmp (JObj [(''_id'', lookup (params req) ''id'')])) docs = Some d"
  shows "store_after (run (softDeleteTask env req res_ok) (store_after (run (softDeleteTask env req res_ok) docs))) =
           store_after (run (softDeleteTask env req res_ok) docs)
       \<and> responses (trace (run (softDeleteTask env req res_ok) docs)) =
           [Success (JObj (merge (softDelete_body uid) d))]
       \<and> responses (trace (run (softDeleteTask env req res_ok) (store_after (run (softDeleteTask env req res_ok) docs)))) =
           [Success (JObj (merge (softDelete_body uid) d))]
       \<and> find (matches cmp (JObj [(''_id'', lookup (params req) ''id'')]))
             (store_after (run (softDeleteTask env req res_ok) docs)) = Some (merge (softDelete_body uid) d)
       \<and> lookup (merge (softDelete_body uid) d) ''isDeleted'' = JBool True"
  using softDelete_twice(1)[OF assms] softDelete_once_response[OF assms]
    softDelete_twice(2)[OF assms] softDelete_twice(3)[OF assms] isDeleted_merge_soft[of uid d]
  by (intro conjI)

theorem C6_softDelete_idempotent_witness:
  "store_after (run (softDeleteTask sample_env hex_req res_ok)
      (store_after (run (softDeleteTask sample_env hex_req res_ok) hex_docs))) =
     store_after (run (softDeleteTask sample_env hex_req res_ok) hex_docs) \<and>
   responses (trace (run (softDeleteTask sample_env hex_req res_ok)
      (store_after (run (softDeleteTask sample_env hex_req res_ok) hex_docs)))) =
     [Success (JObj [(''_id'', hex_id), (''title'', JStr ''t''), (''isDeleted'', JBool True),
                     (''updatedBy'', JStr ''alice'')])]"
proof -
  note T = C6_softDelete_idempotent[OF hex_facts(1) hex_facts(3) hex_facts(4) hex_facts(5)]
  have r: "responses (trace (run (softDeleteTask sample_env hex_req res_ok)
      (store_after (run (softDeleteTask sample_env hex_req res_ok) hex_docs)))) =
     [Success (JObj [(''_id'', hex_id), (''title'', JStr ''t''), (''isDeleted'', JBool True),
                     (''updatedBy'', JStr ''alice'')])]"
    using T[THEN conjunct2, THEN conjunct2, THEN conjunct1] by (simp only: hex_facts(6))
  from T[THEN conjunct1] r show ?thesis by (intro conjI)
qed

text \<open>
  C7. For the modelled validator and both schemas of the Task entity, whether a payload
  is valid depends on its declared fields only: the payload is valid exactly when its
  declared part is, setting a field that the schema does not declare changes nothing,
  and the empty payload is valid.
\<close>

theorem C7_validation_permissive:
  assumes "S = Task_schemaKeys \<or> S = Task_updateSchemaKeys"
  shows "valid_payload isDate payload S = valid_payload isDate (declared_part S payload) S
     \<and> (map_of (joi_keys S) k = None \<longrightarrow>
          valid_payload isDate (AList.update k v payload) S = valid_payload isDate payload S)
     \<and> valid_payload isDate [] S"
proof -
  have u: "joi_unknown S"
    using assms by (auto simp: Task_schemaKeys_def Task_updateSchemaKeys_def)
  have a: "valid_payload isDate payload S = valid_payload isDate (declared_part S payload) S"
    by (rule valid_declared_part[OF u])
  have b: "map_of (joi_keys S) k = None \<longrightarrow>
          valid_payload isDate (AList.update k v payload) S = valid_payload isDate payload S"
    using valid_update_other[OF u] by (rule impI)
  from a b valid_empty show ?thesis by (intro conjI)
qed

theorem C7_validation_permissive_witness:
  "map_of (joi_keys Task_updateSchemaKeys) ''addedBy'' = None \<and>
   valid_payload (\<lambda>v. False) (AList.update ''addedBy'' (JNum 7) [(''title'', JStr ''x'')]) Task_updateSchemaKeys =
     valid_payload (\<lambda>v. False) [(''title'', JStr ''x'')] Task_updateSchemaKeys \<and>
   valid_payload (\<lambda>v. False) [(''title'', JStr ''x'')] Task_updateSchemaKeys \<and>
   \<not> valid_payload (\<lambda>v. False) [(''title'', JNum 3)] Task_updateSchemaKeys \<and>
   valid_payload (\<lambda>v. False) [] Task_updateSchemaKeys"
proof -
  have s: "Task_updateSchemaKeys = Task_schemaKeys \<or> Task_updateSchemaKeys = Task_updateSchemaKeys"
    by simp
  have n: "map_of (joi_keys Task_updateSchemaKeys) ''addedBy'' = None"
    by (simp add: Task_updateSchemaKeys_def)
  have p: "valid_payload (\<lambda>v. False) [(''title'', JStr ''x'')] Task_updateSchemaKeys"
    by (simp add: eval_defs)
  have q: "\<not> valid_payload (\<lambda>v. False) [(''title'', JNum 3)] Task_updateSchemaKeys"
    by (simp add: eval_defs)
  note T = C7_validation_permissive[OF s, of "\<lambda>v. False" "[(''title'', JStr ''x'')]" "''addedBy''" "JNum 7"]
  from n T[THEN conjunct2, THEN conjunct1, THEN mp, OF n] p q T[THEN conjunct2, THEN conjunct2]
  show ?thesis by (intro conjI)
qed




text \<open>
  C9. Every store call of \<open>addTask\<close> creates \<open>new Task(draft)\<close> for a draft whose
  \<open>addedBy\<close> is \<open>req.user.id\<close> (so the created document itself has it when the
  constructor keeps the draft as it is), and every store call of \<open>bulkInsertTask\<close>
  creates a list of drafts each of which has \<open>addedBy\<close> equal to \<open>req.user.id\<close>,
  whatever \<open>addedBy\<close> the request body carries and whatever the response formatter
  does.
\<close>

theorem C9_create_stamps_addedBy:
  "(\<forall>c \<in> set (db_calls (trace (run (addTask env req res) s))).
      \<exists>draft uid doc. get_prop (user req) ''id'' = Inr uid \<and> lookup draft ''addedBy'' = uid \<and>
        newModel env (JObj draft) = Inr doc \<and> c = Create doc)
   \<and> ((\<forall>v. newModel env v = Inr v) \<longrightarrow>
       (\<forall>c \<in> set (db_calls (trace (run (addTask env req res) s))).
          \<exists>kvs uid. get_prop (user req) ''id'' = Inr uid \<and> lookup kvs ''addedBy'' = uid \<and>
            c = Create (JObj kvs)))
   \<and> (\<forall>c \<in> set (db_calls (trace (run (bulkInsertTask env req res) s))).
      \<exists>drafts. c = Create (JArr drafts) \<and>
        (\<forall>d \<in> set drafts. \<exists>kvs uid. d = JObj kvs \<and> get_prop (user req) ''id'' = Inr uid \<and>
           lookup kvs ''addedBy'' = uid))"
proof (intro conjI impI ballI)
  fix c assume "c \<in> set (db_calls (trace (run (addTask env req res) s)))"
  then show "\<exists>draft uid doc. get_prop (user req) ''id'' = Inr uid \<and> lookup draft ''addedBy'' = uid \<and>
        newModel env (JObj draft) = Inr doc \<and> c = Create doc"
    by (rule addTask_calls)
next
  fix c assume n: "\<forall>v. newModel env v = Inr v"
    and c: "c \<in> set (db_calls (trace (run (addTask env req res) s)))"
  from n have "\<And>v. newModel env v = Inr v" by simp
  then show "\<exists>kvs uid. get_prop (user req) ''id'' = Inr uid \<and> lookup kvs ''addedBy'' = uid \<and>
            c = Create (JObj kvs)"
    using c by (rule addTask_calls_plain)
next
  fix c assume "c \<in> set (db_calls (trace (run (bulkInsertTask env req res) s)))"
  then show "\<exists>drafts. c = Create (JArr drafts) \<and>
        (\<forall>d \<in> set drafts. \<exists>kvs uid. d = JObj kvs \<and> get_prop (user req) ''id'' = Inr uid \<and>
           lookup kvs ''addedBy'' = uid)"
    by (rule bulkInsertTask_calls)
qed

theorem C9_create_stamps_addedBy_witness:
  "db_calls (trace (run (addTask sample_env create_req res_ok) abc_docs)) =
     [Create (JObj [(''title'', JStr ''x''), (''addedBy'', JStr ''alice''),
                    (''data'', JArr [JObj [(''addedBy'', JStr ''mallory'')]])])] \<and>
   db_calls (trace (run (bulkInsertTask sample_env create_req res_ok) abc_docs)) =
     [Create (JArr [JObj [(''addedBy'', JStr ''alice'')]])] \<and>
   (\<exists>kvs uid. get_prop (user create_req) ''id'' = Inr uid \<and> lookup kvs ''addedBy'' = uid \<and>
      Create (JObj [(''title'', JStr ''x''), (''addedBy'', JStr ''alice''),
                    (''data'', JArr [JObj [(''addedBy'', JStr ''mallory'')]])]) = Create (JObj kvs)) \<and>
   (\<exists>drafts. Create (JArr [JObj [(''addedBy'', JStr ''alice'')]]) = Create (JArr drafts) \<and>
        (\<forall>d \<in> set drafts. \<exists>kvs uid. d = JObj kvs \<and> get_prop (user create_req) ''id'' = Inr uid \<and>
           lookup kvs ''addedBy'' = uid))"
proof -
  note T = C9_create_stamps_addedBy[where env = sample_env and req = create_req and res = res_ok
      and s = abc_docs]
  have m1: "Create (JObj [(''title'', JStr ''x''), (''addedBy'', JStr ''alice''),
                    (''data'', JArr [JObj [(''addedBy'', JStr ''mallory'')]])])
      \<in> set (db_calls (trace (run (addTask sample_env create_req res_ok) abc_docs)))"
    by (simp add: create_facts(1))
  have m2: "Create (JArr [JObj [(''addedBy'', JStr ''alice'')]])
      \<in> set (db_calls (trace (run (bulkInsertTask sample_env create_req res_ok) abc_docs)))"
    by (simp add: create_facts(2))
  note A = T[THEN conjunct2, THEN conjunct1, THEN mp, OF create_facts(3), THEN bspec, OF m1]
  note B = T[THEN conjunct2, THEN conjunct2, THEN bspec, OF m2]
  from create_facts(1) create_facts(2) A B show ?thesis by (intro conjI)
qed

text \<open>
  C10. When \<open>req.body.data\<close> cannot be read or is not an object (absent, null, or of
  another type), \<open>bulkUpdateTask\<close> still calls \<open>updateMany\<close>, with the filter of the
  request and the empty update \<open>{}\<close>, and answers from the store's result: not found
  for a falsy result, success with the count otherwise. When the store rejects the call,
  the catch block answers with the internal error carrying the message of the rejection
  (and nothing is sent when that message cannot be read).
\<close>

theorem C10_bulkUpdate_without_data:
  assumes "case get_prop (body req) ''data'' of Inl e \<Rightarrow> True | Inr d \<Rightarrow> \<not> is_object d"
  shows "trace (run (bulkUpdateTask env req res_ok) s) =
     Db (UpdateMany (bulk_filter req) (JObj [])) #
     (case fst (dbService env (UpdateMany (bulk_filter req) (JObj [])) s) of
        Inl e \<Rightarrow>
          (case error_message e of
             Inl t \<Rightarrow> []
           | Inr m \<Rightarrow> [Res (InternalServerError m)])
      | Inr n \<Rightarrow> [Res (if truthy n then Success (JObj [(''count'', n)]) else RecordNotFound)])"
proof -
  obtain f where 1: "and_prop (body req) ''filter'' = Inr f"
    using and_prop_total by blast
  obtain d where 2: "and_prop (body req) ''data'' = Inr d"
    using and_prop_total by blast
  have 3: "\<not> (truthy (body req) \<and> is_object d)"
    using assms 2 by (auto simp: and_prop_def split: if_splits)
  show ?thesis
    using 1 2 3
    by (auto simp add: bulkUpdateTask_def bulk_filter_def act_defs split: prod.splits sum.splits)
qed

theorem C10_bulkUpdate_without_data_witness:
  "(case get_prop (body filter_req) ''data'' of Inl e \<Rightarrow> True | Inr d \<Rightarrow> \<not> is_object d) \<and>
   trace (run (bulkUpdateTask sample_env filter_req res_ok) abc_docs) =
     [Db (UpdateMany (JObj [(''status'', JNum 1)]) (JObj [])), Res RecordNotFound]"
proof -
  have h: "case get_prop (body filter_req) ''data'' of Inl e \<Rightarrow> True | Inr d \<Rightarrow> \<not> is_object d"
    by (simp add: filter_req_def lookup_def)
  have f: "bulk_filter filter_req = JObj [(''status'', JNum 1)]"
    by (simp add: bulk_filter_def filter_req_def and_prop_def lookup_def)
  have r: "fst (dbService sample_env (UpdateMany (JObj [(''status'', JNum 1)]) (JObj [])) abc_docs) = Inr (JNum 0)"
    by (simp add: eval_defs abc_docs_def)
  have t: "trace (run (bulkUpdateTask sample_env filter_req res_ok) abc_docs) =
     [Db (UpdateMany (JObj [(''status'', JNum 1)]) (JObj [])), Res RecordNotFound]"
    using C10_bulkUpdate_without_data[OF h, of sample_env abc_docs] by (simp add: f r)
  from h t show ?thesis by (intro conjI)
qed

end
